theory Spec2Isabelle
  imports Main
begin

section \<open>The vehicle assistant of matrix_publisher.py\<close>

text \<open>
  A shallow embedding of the class \<open>SimplifiedVehicleAI\<close>. Python integers are \<open>int\<close>,
  the JSON field \<open>value\<close> (a number or null) is an \<open>int option\<close> with \<open>None\<close> for null,
  action names and ISO timestamps are strings. Values are whole numbers: a fractional
  number, which Python would store as a float, is outside the model. The dictionaries
  \<open>car_state\<close> and \<open>driver_preferences\<close> have a fixed set of keys and are records.
\<close>

subsection \<open>Data\<close>

record CarState =
  climate_on :: bool
  temperature :: int
  infotainment_on :: bool
  volume :: int
  lights_on :: bool
  brightness :: int
  seats_heated :: bool
  seat_position :: int

definition car_state_init :: CarState where
  "car_state_init =
     \<lparr>climate_on = False, temperature = 22, infotainment_on = False, volume = 50,
      lights_on = False, brightness = 80, seats_heated = False, seat_position = 5\<rparr>"

text \<open>
  Python's truth test on \<open>value\<close>, as in \<open>... and value\<close>: null is false, and so is
  the number zero.
\<close>

definition truthy :: "int option \<Rightarrow> bool" where
  "truthy v = (case v of None \<Rightarrow> False | Some n \<Rightarrow> n \<noteq> 0)"

subsection \<open>update_car_state\<close>

text \<open>
  The \<open>if\<close>/\<open>elif\<close> chain of the source, in its order. A guarded branch
  (\<open>action == 'climate_set_temperature' and value\<close>) that fails falls through to the
  later comparisons, none of which matches the same name, and the chain has no \<open>else\<close>.
  In a branch \<open>... and value\<close> that is taken, \<open>value\<close> is a number, read with \<open>the\<close>.
\<close>

definition update_car_state :: "CarState \<Rightarrow> string \<Rightarrow> int option \<Rightarrow> CarState" where
  "update_car_state cs action v =
    (if action = ''climate_turn_on'' then cs\<lparr>climate_on := True\<rparr>
     else if action = ''climate_turn_off'' then cs\<lparr>climate_on := False\<rparr>
     else if action = ''climate_set_temperature'' \<and> truthy v then cs\<lparr>temperature := the v\<rparr>
     else if action = ''climate_increase'' then cs\<lparr>temperature := min (temperature cs + 1) 30\<rparr>
     else if action = ''climate_decrease'' then cs\<lparr>temperature := max (temperature cs - 1) 16\<rparr>
     else if action = ''infotainment_play'' then cs\<lparr>infotainment_on := True\<rparr>
     else if action = ''infotainment_stop'' then cs\<lparr>infotainment_on := False\<rparr>
     else if action = ''infotainment_set_volume'' \<and> truthy v then cs\<lparr>volume := the v\<rparr>
     else if action = ''infotainment_volume_up'' then cs\<lparr>volume := min (volume cs + 10) 100\<rparr>
     else if action = ''infotainment_volume_down'' then cs\<lparr>volume := max (volume cs - 10) 0\<rparr>
     else if action = ''lights_turn_on'' then cs\<lparr>lights_on := True\<rparr>
     else if action = ''lights_turn_off'' then cs\<lparr>lights_on := False\<rparr>
     else if action = ''lights_dim'' then cs\<lparr>brightness := max (brightness cs - 20) 0\<rparr>
     else if action = ''lights_brighten'' then cs\<lparr>brightness := min (brightness cs + 20) 100\<rparr>
     else if action = ''seats_heat_on'' then cs\<lparr>seats_heated := True\<rparr>
     else if action = ''seats_heat_off'' then cs\<lparr>seats_heated := False\<rparr>
     else if action = ''seats_adjust'' \<and> truthy v then cs\<lparr>seat_position := the v\<rparr>
     else cs)"

text \<open>A run of \<open>update_car_state\<close> calls, one per (action, value) pair, oldest first.\<close>

definition update_all :: "CarState \<Rightarrow> (string \<times> int option) list \<Rightarrow> CarState" where
  "update_all cs evs = foldl (\<lambda>c (a, v). update_car_state c a v) cs evs"

text \<open>The names of the fields on which two car states differ.\<close>

definition changed_fields :: "CarState \<Rightarrow> CarState \<Rightarrow> string list" where
  "changed_fields a b =
     (if climate_on a \<noteq> climate_on b then [''climate_on''] else []) @
     (if temperature a \<noteq> temperature b then [''temperature''] else []) @
     (if infotainment_on a \<noteq> infotainment_on b then [''infotainment_on''] else []) @
     (if volume a \<noteq> volume b then [''volume''] else []) @
     (if lights_on a \<noteq> lights_on b then [''lights_on''] else []) @
     (if brightness a \<noteq> brightness b then [''brightness''] else []) @
     (if seats_heated a \<noteq> seats_heated b then [''seats_heated''] else []) @
     (if seat_position a \<noteq> seat_position b then [''seat_position''] else [])"

subsection \<open>The action history\<close>

text \<open>
  One entry of \<open>action_history\<close>: the dictionary with the keys \<open>action\<close>, \<open>timestamp\<close>
  and \<open>value\<close> that \<open>handle_vehicle_action\<close> appends.
\<close>

record ActionEvent =
  ev_action :: string
  ev_timestamp :: string
  ev_value :: "int option"

definition history_maxlen :: nat where
  "history_maxlen = 50"

text \<open>
  \<open>deque(maxlen=50).append\<close>: the entry goes to the right end, and a deque that is
  then longer than \<open>maxlen\<close> drops its leftmost entry. \<open>collections.deque\<close> belongs to
  Python's standard library; the source constructs it and calls \<open>append\<close>, and this is
  the library's documented behaviour.
\<close>

definition deque_append :: "'a \<Rightarrow> 'a list \<Rightarrow> 'a list" where
  "deque_append x xs =
     (let ys = xs @ [x] in if length ys > history_maxlen then tl ys else ys)"

text \<open>The Python slice \<open>xs[-n:]\<close> for \<open>n > 0\<close>: the last \<open>n\<close> entries, all of a shorter list.\<close>

definition py_last :: "nat \<Rightarrow> 'a list \<Rightarrow> 'a list" where
  "py_last n xs = drop (length xs - n) xs"

subsection \<open>learn_preferences\<close>

record DriverPreferences =
  preferred_temperature :: int
  preferred_volume :: int
  preferred_seat_position :: int
  preferred_brightness :: int
  likes_music :: bool
  likes_warm_seats :: bool
  common_actions :: "string list"
  action_sequences :: "string list"

definition driver_preferences_init :: DriverPreferences where
  "driver_preferences_init =
     \<lparr>preferred_temperature = 22, preferred_volume = 50, preferred_seat_position = 5,
      preferred_brightness = 80, likes_music = False, likes_warm_seats = False,
      common_actions = [], action_sequences = []\<rparr>"

text \<open>
  The two comprehensions \<open>[act for act in history if act['action'] == kind and act['value']]\<close>
  and \<open>[act['value'] for act in ...]\<close>: the values of the entries of one kind whose value
  passes Python's truth test.
\<close>

definition kind_values :: "string \<Rightarrow> ActionEvent list \<Rightarrow> int list" where
  "kind_values kind h =
     map (\<lambda>act. the (ev_value act))
       (filter (\<lambda>act. ev_action act = kind \<and> truthy (ev_value act)) h)"

text \<open>The keys of \<open>Counter(actions)\<close>, in the order of their first occurrence.\<close>

fun counter_keys :: "'a list \<Rightarrow> 'a list" where
  "counter_keys [] = []"
| "counter_keys (x # xs) = x # filter (\<lambda>y. y \<noteq> x) (counter_keys xs)"

text \<open>
  The method reads \<open>self.action_history\<close> and writes \<open>self.driver_preferences\<close>: they are
  the argument \<open>h\<close> and the argument and result \<open>p\<close>. Python's \<open>//\<close> on integers is floor
  division, which is \<open>div\<close> on \<open>int\<close>.
\<close>

definition learn_preferences :: "ActionEvent list \<Rightarrow> DriverPreferences \<Rightarrow> DriverPreferences" where
  "learn_preferences h p =
    (if length h < 3 then p
     else
       let actions = map ev_action h;
           temps = kind_values ''climate_set_temperature'' h;
           p1 = (if temps \<noteq> []
                 then p\<lparr>preferred_temperature := sum_list temps div int (length temps)\<rparr>
                 else p);
           vols = kind_values ''infotainment_set_volume'' h;
           p2 = (if vols \<noteq> []
                 then p1\<lparr>preferred_volume := sum_list vols div int (length vols)\<rparr>
                 else p1);
           positions = kind_values ''seats_adjust'' h;
           p3 = (if positions \<noteq> []
                 then p2\<lparr>preferred_seat_position :=
                            sum_list positions div int (length positions)\<rparr>
                 else p2);
           p4 = (if ''infotainment_play'' \<in> set actions then p3\<lparr>likes_music := True\<rparr> else p3);
           p5 = (if ''seats_heat_on'' \<in> set actions then p4\<lparr>likes_warm_seats := True\<rparr> else p4)
       in p5\<lparr>common_actions :=
                filter (\<lambda>a. count_list actions a \<ge> 2) (counter_keys actions)\<rparr>)"

subsection \<open>The session\<close>

record Recommendation =
  rec_action :: string
  rec_message :: string
  rec_value :: "int option"

text \<open>
  The dictionary handed to \<open>client.publish\<close> (after \<open>json.dumps\<close>, which is not
  modelled: the message is kept structured).
\<close>

record BusMessage =
  msg_type :: string
  msg_recommendations :: "Recommendation list"
  msg_timestamp :: string

datatype callback = complete_learning_cb | send_break_reminder_cb

definition LEARNING_PERIOD :: nat where "LEARNING_PERIOD = 30"
definition BREAK_REMINDER_TIME :: nat where "BREAK_REMINDER_TIME = 200"
definition MAX_RECOMMENDATIONS_PER_SESSION :: nat where "MAX_RECOMMENDATIONS_PER_SESSION = 50"

text \<open>
  The fields of \<open>SimplifiedVehicleAI\<close> that the modelled methods read or write. Two fields
  stand for effects on the outside: \<open>timers\<close> lists the \<open>threading.Timer\<close> objects started
  (delay in seconds and callback), and \<open>published\<close> lists the calls of \<open>client.publish\<close> in
  order (topic and message). An exception raised by \<open>client.publish\<close> is caught and printed
  by the source and changes no field. Instants are the strings of \<open>isoformat\<close>.
\<close>

record SimplifiedVehicleAI =
  session_start :: "string option"
  learning_started :: bool
  learning_complete :: bool
  action_history :: "ActionEvent list"
  recommendations_sent :: nat
  last_recommendation_time :: "string option"
  break_reminder_sent :: bool
  car_state :: CarState
  driver_preferences :: DriverPreferences
  timers :: "(nat \<times> callback) list"
  published :: "(string \<times> BusMessage) list"

definition ai_init :: SimplifiedVehicleAI where
  "ai_init =
     \<lparr>session_start = None, learning_started = False, learning_complete = False,
      action_history = [], recommendations_sent = 0, last_recommendation_time = None,
      break_reminder_sent = False, car_state = car_state_init,
      driver_preferences = driver_preferences_init, timers = [], published = []\<rparr>"

definition start_learning :: "string \<Rightarrow> SimplifiedVehicleAI \<Rightarrow> SimplifiedVehicleAI" where
  "start_learning now s =
     s\<lparr>learning_started := True, session_start := Some now,
       timers := timers s @ [(LEARNING_PERIOD, complete_learning_cb),
                             (BREAK_REMINDER_TIME, send_break_reminder_cb)]\<rparr>"

text \<open>
  The payload of \<open>vehicle/actions\<close> after \<open>json.loads\<close>: a dictionary in which each of the
  three keys may be missing (\<open>None\<close>); a \<open>value\<close> that is missing and one that is null read
  the same through \<open>.get('value')\<close>. \<open>now\<close> is the clock reading of \<open>datetime.now()\<close>:
  the source reads the clock once for the default timestamp and again in
  \<open>start_learning\<close>, and the model gives both the one reading.
\<close>

record action_data =
  ad_action :: "string option"
  ad_timestamp :: "string option"
  ad_value :: "int option"

definition handle_vehicle_action :: "string \<Rightarrow> action_data \<Rightarrow> SimplifiedVehicleAI \<Rightarrow> SimplifiedVehicleAI" where
  "handle_vehicle_action now d s =
    (let action = (case ad_action d of None \<Rightarrow> [] | Some a \<Rightarrow> a);
         timestamp = (case ad_timestamp d of None \<Rightarrow> now | Some t \<Rightarrow> t);
         v = ad_value d;
         s1 = s\<lparr>action_history :=
                  deque_append \<lparr>ev_action = action, ev_timestamp = timestamp, ev_value = v\<rparr>
                    (action_history s)\<rparr>;
         s2 = s1\<lparr>car_state := update_car_state (car_state s1) action v\<rparr>;
         s3 = (if \<not> learning_started s2 then start_learning now s2 else s2)
     in s3\<lparr>driver_preferences := learn_preferences (action_history s3) (driver_preferences s3)\<rparr>)"

text \<open>The events of a session in order of arrival, each with the clock reading at arrival.\<close>

definition handle_all :: "SimplifiedVehicleAI \<Rightarrow> (string \<times> action_data) list \<Rightarrow> SimplifiedVehicleAI" where
  "handle_all s evs = foldl (\<lambda>s (now, d). handle_vehicle_action now d s) s evs"

subsection \<open>generate_recommendations\<close>

text \<open>
  The method draws its phrasing with \<open>random.choice\<close> and reads the hour from the clock.
  Each rule builds one message, so the draws of one call are the parameter \<open>phrase\<close>,
  which gives the message text built for a rule's action (with the preferred value
  already formatted in; the two lighting rules have one fixed text each, read through
  \<open>phrase\<close> as well); \<open>current_hour\<close> is \<open>datetime.now().hour\<close>. The method reads
  \<open>self.car_state\<close>, \<open>self.driver_preferences\<close> and \<open>self.action_history\<close>, the arguments
  \<open>cs\<close>, \<open>p\<close> and \<open>h\<close>. The result is \<open>None\<close> as in the source, or the list.
\<close>

definition generate_recommendations ::
  "(string \<Rightarrow> string) \<Rightarrow> nat \<Rightarrow> CarState \<Rightarrow> DriverPreferences \<Rightarrow> ActionEvent list
     \<Rightarrow> Recommendation list option" where
  "generate_recommendations phrase current_hour cs p h =
    (let recent_actions = map ev_action (py_last 5 h);
         recent_action_set = set (py_last 3 recent_actions);
         r1 = (if \<not> climate_on cs \<and> ''climate_turn_on'' \<notin> recent_action_set
               then [\<lparr>rec_action = ''climate_turn_on'',
                      rec_message = phrase ''climate_turn_on'', rec_value = None\<rparr>]
               else []);
         r2 = (if climate_on cs \<and> preferred_temperature p \<noteq> temperature cs \<and>
                  ''climate_set_temperature'' \<notin> recent_action_set
               then [\<lparr>rec_action = ''climate_set_temperature'',
                      rec_message = phrase ''climate_set_temperature'',
                      rec_value = Some (preferred_temperature p)\<rparr>]
               else []);
         r3 = (if \<not> infotainment_on cs \<and> likes_music p \<and>
                  ''infotainment_play'' \<notin> recent_action_set
               then [\<lparr>rec_action = ''infotainment_play'',
                      rec_message = phrase ''infotainment_play'', rec_value = None\<rparr>]
               else []);
         r4 = (if infotainment_on cs \<and> preferred_volume p \<noteq> volume cs \<and>
                  ''infotainment_set_volume'' \<notin> recent_action_set
               then [\<lparr>rec_action = ''infotainment_set_volume'',
                      rec_message = phrase ''infotainment_set_volume'',
                      rec_value = Some (preferred_volume p)\<rparr>]
               else []);
         r5 = (if current_hour \<ge> 18 \<or> current_hour \<le> 6
               then (if \<not> lights_on cs \<and> ''lights_turn_on'' \<notin> recent_action_set
                     then [\<lparr>rec_action = ''lights_turn_on'',
                            rec_message = phrase ''lights_turn_on'', rec_value = None\<rparr>]
                     else [])
               else (if lights_on cs \<and> ''lights_turn_off'' \<notin> recent_action_set
                     then [\<lparr>rec_action = ''lights_turn_off'',
                            rec_message = phrase ''lights_turn_off'', rec_value = None\<rparr>]
                     else []));
         r6 = (if \<not> seats_heated cs \<and> likes_warm_seats p \<and>
                  ''seats_heat_on'' \<notin> recent_action_set
               then [\<lparr>rec_action = ''seats_heat_on'',
                      rec_message = phrase ''seats_heat_on'', rec_value = None\<rparr>]
               else []);
         r7 = (if preferred_seat_position p \<noteq> seat_position cs \<and>
                  ''seats_adjust'' \<notin> recent_action_set
               then [\<lparr>rec_action = ''seats_adjust'',
                      rec_message = phrase ''seats_adjust'',
                      rec_value = Some (preferred_seat_position p)\<rparr>]
               else []);
         recommendations = r1 @ r2 @ r3 @ r4 @ r5 @ r6 @ r7
     in if recommendations \<noteq> [] then Some (take 2 recommendations) else None)"

subsection \<open>Publishing\<close>

definition recommendations_topic :: string where
  "recommendations_topic = ''vehicle/recommendations''"

text \<open>\<open>now\<close> is the clock reading that stamps the message.\<close>

definition send_recommendations ::
  "string \<Rightarrow> Recommendation list \<Rightarrow> SimplifiedVehicleAI \<Rightarrow> SimplifiedVehicleAI" where
  "send_recommendations now recommendations s =
    (if recommendations = [] then s
     else s\<lparr>published := published s @
              [(recommendations_topic,
                \<lparr>msg_type = ''ai_suggestion'', msg_recommendations = recommendations,
                 msg_timestamp = now\<rparr>)]\<rparr>)"

text \<open>\<open>message\<close> is the text drawn by \<open>random.choice(break_messages)\<close>.\<close>

definition send_break_reminder ::
  "string \<Rightarrow> string \<Rightarrow> SimplifiedVehicleAI \<Rightarrow> SimplifiedVehicleAI" where
  "send_break_reminder message now s =
    (if \<not> break_reminder_sent s
     then s\<lparr>break_reminder_sent := True,
            published := published s @
              [(recommendations_topic,
                \<lparr>msg_type = ''ai_suggestion'',
                 msg_recommendations =
                   [\<lparr>rec_action = ''take_break'', rec_message = message, rec_value = None\<rparr>],
                 msg_timestamp = now\<rparr>)]\<rparr>
     else s)"

text \<open>
  \<open>complete_learning\<close> sets the flag and starts the thread of the recommendation loop,
  whose passes are \<open>recommendation_loop_pass\<close> below.
\<close>

definition complete_learning :: "SimplifiedVehicleAI \<Rightarrow> SimplifiedVehicleAI" where
  "complete_learning s = s\<lparr>learning_complete := True\<rparr>"

text \<open>
  One pass through the body of the \<open>while\<close> loop of \<open>recommendation_loop\<close>, without its
  waits: \<open>None\<close> when the loop condition fails and the loop ends, otherwise the session
  after the pass. \<open>now\<close> stamps the message, \<open>now'\<close> is the later reading stored in
  \<open>last_recommendation_time\<close>. The test \<open>if recommendations:\<close> fails on \<open>None\<close> and on
  the empty list.
\<close>

definition recommendation_loop_pass ::
  "(string \<Rightarrow> string) \<Rightarrow> nat \<Rightarrow> string \<Rightarrow> string \<Rightarrow> SimplifiedVehicleAI
     \<Rightarrow> SimplifiedVehicleAI option" where
  "recommendation_loop_pass phrase current_hour now now' s =
    (if learning_complete s \<and> recommendations_sent s < MAX_RECOMMENDATIONS_PER_SESSION
     then
       (case generate_recommendations phrase current_hour
               (car_state s) (driver_preferences s) (action_history s) of
          None \<Rightarrow> Some s
        | Some recommendations \<Rightarrow>
            if recommendations = [] then Some s
            else Some ((send_recommendations now recommendations s)
                         \<lparr>recommendations_sent := recommendations_sent s + 1,
                          last_recommendation_time := Some now'\<rparr>))
     else None)"

subsection \<open>Sessions\<close>

text \<open>
  What happens to one session: an action arrives on the bus, the learning timer or the
  break timer expires, or the recommendation loop makes a pass. Each runs one method on
  the session; a pass of a loop that has ended changes nothing.
\<close>

datatype session_step =
  Action string action_data
| LearningExpired
| ReminderExpired string string
| LoopPass "string \<Rightarrow> string" nat string string

fun step_session :: "SimplifiedVehicleAI \<Rightarrow> session_step \<Rightarrow> SimplifiedVehicleAI" where
  "step_session s (Action now d) = handle_vehicle_action now d s"
| "step_session s LearningExpired = complete_learning s"
| "step_session s (ReminderExpired message now) = send_break_reminder message now s"
| "step_session s (LoopPass phrase current_hour now now') =
     (case recommendation_loop_pass phrase current_hour now now' s of
        None \<Rightarrow> s | Some s' \<Rightarrow> s')"

definition run_session :: "SimplifiedVehicleAI \<Rightarrow> session_step list \<Rightarrow> SimplifiedVehicleAI" where
  "run_session s steps = foldl step_session s steps"

text \<open>The published messages that carry a recommendation with the action \<open>take_break\<close>.\<close>

definition break_reminders :: "SimplifiedVehicleAI \<Rightarrow> (string \<times> BusMessage) list" where
  "break_reminders s =
     filter (\<lambda>(topic, m). ''take_break'' \<in> set (map rec_action (msg_recommendations m)))
       (published s)"

subsection \<open>Notions of the specification\<close>

text \<open>The 17 action names that \<open>update_car_state\<close> compares against.\<close>

definition known_actions :: "string list" where
  "known_actions =
     [''climate_turn_on'', ''climate_turn_off'', ''climate_set_temperature'',
      ''climate_increase'', ''climate_decrease'', ''infotainment_play'',
      ''infotainment_stop'', ''infotainment_set_volume'', ''infotainment_volume_up'',
      ''infotainment_volume_down'', ''lights_turn_on'', ''lights_turn_off'', ''lights_dim'',
      ''lights_brighten'', ''seats_heat_on'', ''seats_heat_off'', ''seats_adjust'']"

text \<open>The history entry that stands for an arriving payload.\<close>

definition event_of :: "string \<Rightarrow> action_data \<Rightarrow> ActionEvent" where
  "event_of now d =
     \<lparr>ev_action = (case ad_action d of None \<Rightarrow> [] | Some a \<Rightarrow> a),
      ev_timestamp = (case ad_timestamp d of None \<Rightarrow> now | Some t \<Rightarrow> t),
      ev_value = ad_value d\<rparr>"

text \<open>
  The specification's preference rule, in its words: the values of the history entries of
  one kind with a non-null value, and the arithmetic mean truncated to an integer
  (rounded towards zero).
\<close>

definition nonnull_values :: "string \<Rightarrow> ActionEvent list \<Rightarrow> int list" where
  "nonnull_values kind h =
     map (\<lambda>act. the (ev_value act))
       (filter (\<lambda>act. ev_action act = kind \<and> ev_value act \<noteq> None) h)"

definition truncated_mean :: "int list \<Rightarrow> int" where
  "truncated_mean xs = sgn (sum_list xs) * (\<bar>sum_list xs\<bar> div int (length xs))"

text \<open>
  The specification's generator, in its words: seven eligibility rules in declaration order,
  each with the recommendation it makes, of which the first two that pass are returned and
  nothing when none passes. "Last 3" is the last three of the last five recorded action names.
\<close>

definition last_3 :: "ActionEvent list \<Rightarrow> string list" where
  "last_3 h = py_last 3 (map ev_action (py_last 5 h))"

definition eligibility_rules ::
  "(string \<Rightarrow> string) \<Rightarrow> nat \<Rightarrow> CarState \<Rightarrow> DriverPreferences \<Rightarrow> ActionEvent list
     \<Rightarrow> (bool \<times> Recommendation) list" where
  "eligibility_rules phrase current_hour cs p h =
    [(\<not> climate_on cs \<and> ''climate_turn_on'' \<notin> set (last_3 h),
      \<lparr>rec_action = ''climate_turn_on'', rec_message = phrase ''climate_turn_on'',
       rec_value = None\<rparr>),
     (climate_on cs \<and> preferred_temperature p \<noteq> temperature cs \<and>
        ''climate_set_temperature'' \<notin> set (last_3 h),
      \<lparr>rec_action = ''climate_set_temperature'',
       rec_message = phrase ''climate_set_temperature'',
       rec_value = Some (preferred_temperature p)\<rparr>),
     (\<not> infotainment_on cs \<and> likes_music p \<and> ''infotainment_play'' \<notin> set (last_3 h),
      \<lparr>rec_action = ''infotainment_play'', rec_message = phrase ''infotainment_play'',
       rec_value = None\<rparr>),
     (infotainment_on cs \<and> preferred_volume p \<noteq> volume cs \<and>
        ''infotainment_set_volume'' \<notin> set (last_3 h),
      \<lparr>rec_action = ''infotainment_set_volume'',
       rec_message = phrase ''infotainment_set_volume'',
       rec_value = Some (preferred_volume p)\<rparr>),
     (if current_hour \<ge> 18 \<or> current_hour \<le> 6
      then (\<not> lights_on cs \<and> ''lights_turn_on'' \<notin> set (last_3 h),
            \<lparr>rec_action = ''lights_turn_on'', rec_message = phrase ''lights_turn_on'',
             rec_value = None\<rparr>)
      else (lights_on cs \<and> ''lights_turn_off'' \<notin> set (last_3 h),
            \<lparr>rec_action = ''lights_turn_off'', rec_message = phrase ''lights_turn_off'',
             rec_value = None\<rparr>)),
     (\<not> seats_heated cs \<and> likes_warm_seats p \<and> ''seats_heat_on'' \<notin> set (last_3 h),
      \<lparr>rec_action = ''seats_heat_on'', rec_message = phrase ''seats_heat_on'',
       rec_value = None\<rparr>),
     (preferred_seat_position p \<noteq> seat_position cs \<and> ''seats_adjust'' \<notin> set (last_3 h),
      \<lparr>rec_action = ''seats_adjust'', rec_message = phrase ''seats_adjust'',
       rec_value = Some (preferred_seat_position p)\<rparr>)]"

definition first_two_eligible :: "(bool \<times> 'a) list \<Rightarrow> 'a list option" where
  "first_two_eligible rules =
     (let passed = map snd (filter fst rules)
      in if passed = [] then None else Some (take 2 passed))"

section \<open>Properties of the car state\<close>

text \<open>Every call of \<open>update_car_state\<close> returns the state itself or one single-field update of it.\<close>

lemma update_car_state_shape:
  "update_car_state cs a v \<in>
     {cs, cs\<lparr>climate_on := True\<rparr>, cs\<lparr>climate_on := False\<rparr>,
      cs\<lparr>temperature := the v\<rparr>,
      cs\<lparr>temperature := min (temperature cs + 1) 30\<rparr>,
      cs\<lparr>temperature := max (temperature cs - 1) 16\<rparr>,
      cs\<lparr>infotainment_on := True\<rparr>, cs\<lparr>infotainment_on := False\<rparr>,
      cs\<lparr>volume := the v\<rparr>,
      cs\<lparr>volume := min (volume cs + 10) 100\<rparr>,
      cs\<lparr>volume := max (volume cs - 10) 0\<rparr>,
      cs\<lparr>lights_on := True\<rparr>, cs\<lparr>lights_on := False\<rparr>,
      cs\<lparr>brightness := max (brightness cs - 20) 0\<rparr>,
      cs\<lparr>brightness := min (brightness cs + 20) 100\<rparr>,
      cs\<lparr>seats_heated := True\<rparr>, cs\<lparr>seats_heated := False\<rparr>,
      cs\<lparr>seat_position := the v\<rparr>}"
  unfolding update_car_state_def
  by (simp only: if_split insert_iff simp_thms split: if_split)

lemma brightness_update_car_state:
  "0 \<le> brightness cs \<and> brightness cs \<le> 100 \<Longrightarrow>
   0 \<le> brightness (update_car_state cs a v) \<and> brightness (update_car_state cs a v) \<le> 100"
  using update_car_state_shape [of cs a v]
  unfolding insert_iff empty_iff
  by (elim disjE) simp_all

lemma brightness_update_all:
  "0 \<le> brightness cs \<and> brightness cs \<le> 100 \<Longrightarrow>
   0 \<le> brightness (update_all cs evs) \<and> brightness (update_all cs evs) \<le> 100"
proof (induction evs arbitrary: cs)
  case Nil
  then show ?case by (simp add: update_all_def)
next
  case (Cons e evs)
  obtain a v where e: "e = (a, v)" by (cases e)
  have "update_all cs (e # evs) = update_all (update_car_state cs a v) evs"
    by (simp add: update_all_def e)
  with Cons.IH [OF brightness_update_car_state [OF Cons.prems, of a v]] show ?case
    by simp
qed

lemma brightness_reachable:
  "0 \<le> brightness (update_all car_state_init evs) \<and>
   brightness (update_all car_state_init evs) \<le> 100"
  by (rule brightness_update_all) (simp add: car_state_init_def)

lemma step_temperature:
  "temperature (update_car_state c ''climate_increase'' v) = min (temperature c + 1) 30"
  "temperature (update_car_state c ''climate_decrease'' v) = max (temperature c - 1) 16"
  by (simp_all add: update_car_state_def)

lemma step_volume:
  "volume (update_car_state c ''infotainment_volume_up'' v) = min (volume c + 10) 100"
  "volume (update_car_state c ''infotainment_volume_down'' v) = max (volume c - 10) 0"
  by (simp_all add: update_car_state_def)

lemma step_brightness:
  "brightness (update_car_state c ''lights_dim'' v) = max (brightness c - 20) 0"
  "brightness (update_car_state c ''lights_brighten'' v) = min (brightness c + 20) 100"
  by (simp_all add: update_car_state_def)

text \<open>
  Claim C1, as the code has it. The steps clamp on one side only: an increase caps the
  field from above and a decrease from below. So for every car state \<open>c\<close> the temperature
  is at most 30 after \<open>climate_increase\<close> and at least 16 after \<open>climate_decrease\<close>, the
  volume is at most 100 after \<open>infotainment_volume_up\<close> and at least 0 after
  \<open>infotainment_volume_down\<close>, and a temperature in [16,30] or a volume in [0,100] stays
  in its range under both of its steps. The brightness, which has no direct set, lies in
  [0,100] after \<open>lights_dim\<close> and \<open>lights_brighten\<close> in every state reachable from the
  defaults.
\<close>

theorem clamped_steps_bounds:
  "(0 \<le> brightness (update_car_state (update_all car_state_init evs) ''lights_dim'' v) \<and>
    brightness (update_car_state (update_all car_state_init evs) ''lights_dim'' v) \<le> 100 \<and>
    0 \<le> brightness (update_car_state (update_all car_state_init evs) ''lights_brighten'' v) \<and>
    brightness (update_car_state (update_all car_state_init evs) ''lights_brighten'' v) \<le> 100) \<and>
   temperature (update_car_state c ''climate_increase'' v) \<le> 30 \<and>
   16 \<le> temperature (update_car_state c ''climate_decrease'' v) \<and>
   volume (update_car_state c ''infotainment_volume_up'' v) \<le> 100 \<and>
   0 \<le> volume (update_car_state c ''infotainment_volume_down'' v) \<and>
   (16 \<le> temperature c \<and> temperature c \<le> 30 \<longrightarrow>
      16 \<le> temperature (update_car_state c ''climate_increase'' v) \<and>
      temperature (update_car_state c ''climate_decrease'' v) \<le> 30) \<and>
   (0 \<le> volume c \<and> volume c \<le> 100 \<longrightarrow>
      0 \<le> volume (update_car_state c ''infotainment_volume_up'' v) \<and>
      volume (update_car_state c ''infotainment_volume_down'' v) \<le> 100)"
  using brightness_reachable [of evs]
  by (simp add: step_temperature step_volume step_brightness)

theorem clamped_steps_bounds_witness:
  "16 \<le> temperature car_state_init \<and> temperature car_state_init \<le> 30 \<and>
   16 \<le> temperature (update_car_state car_state_init ''climate_increase'' None) \<and>
   temperature (update_car_state car_state_init ''climate_decrease'' None) \<le> 30 \<and>
   0 \<le> volume car_state_init \<and> volume car_state_init \<le> 100 \<and>
   0 \<le> volume (update_car_state car_state_init ''infotainment_volume_up'' None) \<and>
   volume (update_car_state car_state_init ''infotainment_volume_down'' None) \<le> 100"
  using clamped_steps_bounds [of "[(''lights_dim'', None)]" None car_state_init]
  by (simp add: car_state_init_def)

text \<open>
  Claim C1 as stated fails: a direct set stores 100, which is reachable, and the decrease
  that follows leaves 99, above 30.
\<close>

theorem decrease_after_set_out_of_range:
  "\<not> temperature
       (update_car_state
          (update_all car_state_init [(''climate_set_temperature'', Some 100)])
          ''climate_decrease'' None) \<le> 30"
  by (simp add: update_all_def update_car_state_def truthy_def car_state_init_def)

text \<open>
  Claim C4, as the code has it: for every value \<open>v\<close> that is neither null nor zero,
  \<open>climate_set_temperature\<close> stores \<open>v\<close> in \<open>temperature\<close>, \<open>seats_adjust\<close> stores it in
  \<open>seat_position\<close> and \<open>infotainment_set_volume\<close> stores it in \<open>volume\<close>, with no clamp.
\<close>

theorem direct_set_unclamped:
  "v \<noteq> 0 \<Longrightarrow>
   temperature (update_car_state cs ''climate_set_temperature'' (Some v)) = v \<and>
   seat_position (update_car_state cs ''seats_adjust'' (Some v)) = v \<and>
   volume (update_car_state cs ''infotainment_set_volume'' (Some v)) = v"
  by (simp add: update_car_state_def truthy_def)

theorem direct_set_unclamped_witness:
  "(135::int) \<noteq> 0 \<and>
   temperature (update_car_state car_state_init ''climate_set_temperature'' (Some 135)) = 135 \<and>
   seat_position (update_car_state car_state_init ''seats_adjust'' (Some 135)) = 135 \<and>
   volume (update_car_state car_state_init ''infotainment_set_volume'' (Some 135)) = 135"
  using direct_set_unclamped [of 135 car_state_init] by simp

text \<open>
  Claim C4 as stated fails at the non-null value 0, which the truth test of the guard
  rejects: the volume stays at its default 50.
\<close>

theorem set_volume_zero_ignored:
  "volume (update_car_state car_state_init ''infotainment_set_volume'' (Some 0)) = 50"
  by (simp add: update_car_state_def truthy_def car_state_init_def)

text \<open>
  Claim C10: one call of \<open>update_car_state\<close>, for any action name and value, changes at
  most one of the eight fields of the car state; a climate action changes none of the
  infotainment, volume, lighting and seat fields.
\<close>

theorem update_changes_at_most_one_field:
  "length (changed_fields cs (update_car_state cs a v)) \<le> 1 \<and>
   (a \<in> {''climate_turn_on'', ''climate_turn_off'', ''climate_set_temperature'',
          ''climate_increase'', ''climate_decrease''} \<longrightarrow>
      infotainment_on (update_car_state cs a v) = infotainment_on cs \<and>
      volume (update_car_state cs a v) = volume cs \<and>
      lights_on (update_car_state cs a v) = lights_on cs \<and>
      brightness (update_car_state cs a v) = brightness cs \<and>
      seats_heated (update_car_state cs a v) = seats_heated cs \<and>
      seat_position (update_car_state cs a v) = seat_position cs)"
proof
  show "length (changed_fields cs (update_car_state cs a v)) \<le> 1"
    using update_car_state_shape [of cs a v]
    unfolding insert_iff empty_iff
    by (elim disjE) (simp_all add: changed_fields_def)
next
  show "a \<in> {''climate_turn_on'', ''climate_turn_off'', ''climate_set_temperature'',
          ''climate_increase'', ''climate_decrease''} \<longrightarrow>
      infotainment_on (update_car_state cs a v) = infotainment_on cs \<and>
      volume (update_car_state cs a v) = volume cs \<and>
      lights_on (update_car_state cs a v) = lights_on cs \<and>
      brightness (update_car_state cs a v) = brightness cs \<and>
      seats_heated (update_car_state cs a v) = seats_heated cs \<and>
      seat_position (update_car_state cs a v) = seat_position cs"
    unfolding insert_iff empty_iff
    by (intro impI, elim disjE) (simp_all add: update_car_state_def)
qed

theorem update_changes_at_most_one_field_witness:
  "changed_fields car_state_init
     (update_car_state car_state_init ''climate_increase'' None) = [''temperature''] \<and>
   volume (update_car_state car_state_init ''climate_increase'' None) = 50 \<and>
   brightness (update_car_state car_state_init ''climate_increase'' None) = 80 \<and>
   seat_position (update_car_state car_state_init ''climate_increase'' None) = 5"
  using update_changes_at_most_one_field [of car_state_init "''climate_increase''" None]
  by (simp add: changed_fields_def step_temperature car_state_init_def)

section \<open>Properties of event handling\<close>

lemma action_history_handle:
  "action_history (handle_vehicle_action now d s) =
     deque_append (event_of now d) (action_history s)"
  by (simp add: handle_vehicle_action_def Let_def start_learning_def event_of_def)

lemma car_state_handle:
  "car_state (handle_vehicle_action now d s) =
     update_car_state (car_state s) (ev_action (event_of now d)) (ad_value d)"
  by (simp add: handle_vehicle_action_def Let_def start_learning_def event_of_def)

lemma driver_preferences_handle:
  "driver_preferences (handle_vehicle_action now d s) =
     learn_preferences (deque_append (event_of now d) (action_history s)) (driver_preferences s)"
  by (simp add: handle_vehicle_action_def Let_def start_learning_def event_of_def)

lemma published_handle:
  "published (handle_vehicle_action now d s) = published s"
  "break_reminder_sent (handle_vehicle_action now d s) = break_reminder_sent s"
  by (simp_all add: handle_vehicle_action_def Let_def start_learning_def)

lemma update_car_state_unknown:
  "a \<notin> set known_actions \<Longrightarrow> update_car_state cs a v = cs"
  by (simp add: known_actions_def update_car_state_def)

lemma deque_append_last: "last (deque_append x xs) = x"
  by (cases xs) (simp_all add: deque_append_def Let_def history_maxlen_def)

lemma deque_append_full:
  "length xs = 50 \<Longrightarrow> deque_append x xs = tl xs @ [x]"
  by (cases xs) (simp_all add: deque_append_def Let_def history_maxlen_def)

lemma deque_append_room:
  "length xs < 50 \<Longrightarrow> deque_append x xs = xs @ [x]"
  by (simp add: deque_append_def Let_def history_maxlen_def)

lemma deque_append_py_last:
  "deque_append x (py_last 50 ys) = py_last 50 (ys @ [x])"
proof (cases "length ys < 50")
  case True
  then show ?thesis by (simp add: py_last_def deque_append_def Let_def history_maxlen_def)
next
  case False
  then have len: "50 \<le> length ys" by simp
  then have ne: "drop (length ys - 50) ys \<noteq> []" by simp
  have "deque_append x (py_last 50 ys) = tl (drop (length ys - 50) ys @ [x])"
    using len by (simp add: py_last_def deque_append_def Let_def history_maxlen_def)
  also have "\<dots> = drop (Suc (length ys - 50)) ys @ [x]"
    using ne by (simp add: tl_drop drop_Suc)
  also have "\<dots> = py_last 50 (ys @ [x])"
  proof -
    have "Suc (length ys - 50) = length (ys @ [x]) - 50" using len by simp
    then show ?thesis using len by (simp add: py_last_def)
  qed
  finally show ?thesis .
qed

lemma handle_all_snoc:
  "handle_all s (evs @ [(now, d)]) = handle_vehicle_action now d (handle_all s evs)"
  by (simp add: handle_all_def)

lemma action_history_handle_all:
  "action_history (handle_all ai_init evs) = py_last 50 (map (\<lambda>(now, d). event_of now d) evs)"
proof (induction evs rule: rev_induct)
  case Nil
  show ?case by (simp add: handle_all_def ai_init_def py_last_def)
next
  case (snoc e evs)
  obtain now d where e: "e = (now, d)" by (cases e)
  show ?case
    unfolding e handle_all_snoc action_history_handle snoc.IH deque_append_py_last
    by simp
qed

lemma length_py_last: "length (py_last n xs) \<le> n"
  by (simp add: py_last_def)

lemma deque_append_at_capacity:
  "50 \<le> length xs \<Longrightarrow> deque_append x xs = tl xs @ [x]"
  by (cases xs) (simp_all add: deque_append_def Let_def history_maxlen_def)

text \<open>
  Claim C8: an event whose action name is none of the 17 known names (a missing
  \<open>action\<close> key reads as the empty name) leaves every field of the car state as it was,
  and the event is still appended to the action history: below the capacity of 50 the
  history is the earlier history, entry for entry, followed by the event, and at
  capacity it is the earlier history without its oldest entry, followed by the event.
\<close>

theorem unknown_action_no_mutation:
  "ev_action (event_of now d) \<notin> set known_actions \<Longrightarrow>
   car_state (handle_vehicle_action now d s) = car_state s \<and>
   (length (action_history s) < 50 \<longrightarrow>
      action_history (handle_vehicle_action now d s) =
        action_history s @ [event_of now d]) \<and>
   (50 \<le> length (action_history s) \<longrightarrow>
      action_history (handle_vehicle_action now d s) =
        tl (action_history s) @ [event_of now d]) \<and>
   last (action_history (handle_vehicle_action now d s)) = event_of now d"
  by (simp add: car_state_handle action_history_handle update_car_state_unknown
        deque_append_last deque_append_room deque_append_at_capacity)

theorem unknown_action_no_mutation_witness:
  "''sunroof_open'' \<notin> set known_actions \<and>
   car_state
     (handle_vehicle_action ''t1''
        \<lparr>ad_action = Some ''sunroof_open'', ad_timestamp = None, ad_value = Some 7\<rparr>
        (handle_vehicle_action ''t0''
           \<lparr>ad_action = Some ''climate_turn_on'', ad_timestamp = None, ad_value = None\<rparr>
           ai_init)) =
     car_state_init\<lparr>climate_on := True\<rparr> \<and>
   action_history
     (handle_vehicle_action ''t1''
        \<lparr>ad_action = Some ''sunroof_open'', ad_timestamp = None, ad_value = Some 7\<rparr>
        (handle_vehicle_action ''t0''
           \<lparr>ad_action = Some ''climate_turn_on'', ad_timestamp = None, ad_value = None\<rparr>
           ai_init)) =
     [\<lparr>ev_action = ''climate_turn_on'', ev_timestamp = ''t0'', ev_value = None\<rparr>,
      \<lparr>ev_action = ''sunroof_open'', ev_timestamp = ''t1'', ev_value = Some 7\<rparr>] \<and>
   action_history
     (handle_vehicle_action ''t1''
        \<lparr>ad_action = Some ''sunroof_open'', ad_timestamp = None, ad_value = Some 7\<rparr>
        (ai_init\<lparr>action_history :=
           \<lparr>ev_action = ''lights_dim'', ev_timestamp = ''t0'', ev_value = None\<rparr> #
           replicate 49
             \<lparr>ev_action = ''climate_turn_on'', ev_timestamp = ''t0'', ev_value = None\<rparr>\<rparr>)) =
     replicate 49 \<lparr>ev_action = ''climate_turn_on'', ev_timestamp = ''t0'', ev_value = None\<rparr> @
     [\<lparr>ev_action = ''sunroof_open'', ev_timestamp = ''t1'', ev_value = Some 7\<rparr>]"
proof -
  let ?d = "\<lparr>ad_action = Some ''sunroof_open'', ad_timestamp = None, ad_value = Some 7\<rparr>"
  let ?first = "\<lparr>ad_action = Some ''climate_turn_on'', ad_timestamp = None, ad_value = None\<rparr>"
  let ?before = "handle_vehicle_action ''t0'' ?first ai_init"
  let ?old = "\<lparr>ev_action = ''climate_turn_on'', ev_timestamp = ''t0'', ev_value = None :: int option\<rparr>"
  let ?full = "ai_init\<lparr>action_history :=
      \<lparr>ev_action = ''lights_dim'', ev_timestamp = ''t0'', ev_value = None\<rparr> # replicate 49 ?old\<rparr>"
  have u: "''sunroof_open'' \<notin> set known_actions"
    by (simp add: known_actions_def)
  have h: "ev_action (event_of ''t1'' ?d) \<notin> set known_actions"
    using u by (simp add: event_of_def)
  have e: "event_of ''t1'' ?d =
      \<lparr>ev_action = ''sunroof_open'', ev_timestamp = ''t1'', ev_value = Some 7\<rparr>"
    by (simp add: event_of_def)
  have h1: "action_history ?before = [?old]"
    by (simp add: action_history_handle event_of_def ai_init_def deque_append_def
          history_maxlen_def)
  have c1: "car_state ?before = car_state_init\<lparr>climate_on := True\<rparr>"
    by (simp add: car_state_handle event_of_def ai_init_def update_car_state_def)
  have room: "length (action_history ?before) < 50" by (simp add: h1)
  have full: "50 \<le> length (action_history ?full)" by simp
  from unknown_action_no_mutation [OF h, of ?before] room
  have a: "car_state (handle_vehicle_action ''t1'' ?d ?before) = car_state ?before"
    and b: "action_history (handle_vehicle_action ''t1'' ?d ?before) =
      action_history ?before @ [event_of ''t1'' ?d]"
    by blast+
  from unknown_action_no_mutation [OF h, of ?full] full
  have c: "action_history (handle_vehicle_action ''t1'' ?d ?full) =
      tl (action_history ?full) @ [event_of ''t1'' ?d]"
    by blast
  show ?thesis
    unfolding a b c c1 h1 e using u by simp
qed

text \<open>
  Claim C9: after every sequence of events the action history has at most 50 entries; it
  holds the last 50 events in their order of arrival. An append to a history of 50
  entries drops the oldest entry and keeps the others in order; an append to a shorter
  history drops nothing.
\<close>

theorem history_bounded_fifo:
  "length (action_history (handle_all ai_init evs)) \<le> 50 \<and>
   action_history (handle_all ai_init evs) =
     py_last 50 (map (\<lambda>(now, d). event_of now d) evs) \<and>
   (length (action_history s) = 50 \<longrightarrow>
      action_history (handle_vehicle_action now d s) =
        tl (action_history s) @ [event_of now d]) \<and>
   (length (action_history s) < 50 \<longrightarrow>
      action_history (handle_vehicle_action now d s) =
        action_history s @ [event_of now d])"
  by (simp add: action_history_handle_all length_py_last action_history_handle
        deque_append_full deque_append_room)

theorem history_bounded_fifo_witness:
  "length (action_history
      (ai_init\<lparr>action_history :=
         replicate 50 \<lparr>ev_action = ''lights_dim'', ev_timestamp = ''t0'', ev_value = None\<rparr>\<rparr>)) = 50 \<and>
   action_history (handle_vehicle_action ''t1''
      \<lparr>ad_action = Some ''lights_brighten'', ad_timestamp = None, ad_value = None\<rparr>
      (ai_init\<lparr>action_history :=
         replicate 50 \<lparr>ev_action = ''lights_dim'', ev_timestamp = ''t0'', ev_value = None\<rparr>\<rparr>)) =
     replicate 49 \<lparr>ev_action = ''lights_dim'', ev_timestamp = ''t0'', ev_value = None\<rparr> @
     [\<lparr>ev_action = ''lights_brighten'', ev_timestamp = ''t1'', ev_value = None\<rparr>] \<and>
   action_history (handle_vehicle_action ''t1''
      \<lparr>ad_action = Some ''lights_brighten'', ad_timestamp = None, ad_value = None\<rparr> ai_init) =
     [\<lparr>ev_action = ''lights_brighten'', ev_timestamp = ''t1'', ev_value = None\<rparr>]"
proof -
  let ?e = "\<lparr>ev_action = ''lights_dim'', ev_timestamp = ''t0'', ev_value = None\<rparr>"
  let ?d = "\<lparr>ad_action = Some ''lights_brighten'', ad_timestamp = None, ad_value = None\<rparr>"
  let ?s = "ai_init\<lparr>action_history := replicate 50 ?e\<rparr>"
  have full: "length (action_history ?s) = 50" by simp
  have room: "length (action_history ai_init) < 50" by (simp add: ai_init_def)
  have tl50: "tl (replicate 50 ?e) = replicate 49 ?e"
    by simp
  from history_bounded_fifo [of "[]" ?s "''t1''" ?d] full
  have a: "action_history (handle_vehicle_action ''t1'' ?d ?s) =
      tl (action_history ?s) @ [event_of ''t1'' ?d]" by blast
  from history_bounded_fifo [of "[]" ai_init "''t1''" ?d] room
  have b: "action_history (handle_vehicle_action ''t1'' ?d ai_init) =
      action_history ai_init @ [event_of ''t1'' ?d]" by blast
  show ?thesis
    unfolding a b using full by (simp add: tl50 event_of_def) (simp add: ai_init_def)
qed

section \<open>Properties of the preference learner\<close>

lemma likes_music_learn:
  "likes_music (learn_preferences h p) =
     (if length h < 3 then likes_music p
      else likes_music p \<or> ''infotainment_play'' \<in> set (map ev_action h))"
  by (simp add: learn_preferences_def Let_def)

lemma likes_warm_seats_learn:
  "likes_warm_seats (learn_preferences h p) =
     (if length h < 3 then likes_warm_seats p
      else likes_warm_seats p \<or> ''seats_heat_on'' \<in> set (map ev_action h))"
  by (simp add: learn_preferences_def Let_def)

lemma preferred_temperature_learn:
  "preferred_temperature (learn_preferences h p) =
     (if length h < 3 \<or> kind_values ''climate_set_temperature'' h = []
      then preferred_temperature p
      else sum_list (kind_values ''climate_set_temperature'' h) div
           int (length (kind_values ''climate_set_temperature'' h)))"
  by (simp add: learn_preferences_def Let_def)

lemma preferred_volume_learn:
  "preferred_volume (learn_preferences h p) =
     (if length h < 3 \<or> kind_values ''infotainment_set_volume'' h = []
      then preferred_volume p
      else sum_list (kind_values ''infotainment_set_volume'' h) div
           int (length (kind_values ''infotainment_set_volume'' h)))"
  by (simp add: learn_preferences_def Let_def)

lemma preferred_seat_position_learn:
  "preferred_seat_position (learn_preferences h p) =
     (if length h < 3 \<or> kind_values ''seats_adjust'' h = []
      then preferred_seat_position p
      else sum_list (kind_values ''seats_adjust'' h) div
           int (length (kind_values ''seats_adjust'' h)))"
  by (simp add: learn_preferences_def Let_def)

lemma learn_short: "length h < 3 \<Longrightarrow> learn_preferences h p = p"
  by (simp add: learn_preferences_def)

lemma kind_values_nonnull:
  assumes "\<forall>act\<in>set h. ev_action act = kind \<longrightarrow> ev_value act \<noteq> Some 0"
  shows "kind_values kind h = nonnull_values kind h"
proof -
  have "filter (\<lambda>act. ev_action act = kind \<and> truthy (ev_value act)) h =
        filter (\<lambda>act. ev_action act = kind \<and> ev_value act \<noteq> None) h"
    using assms by (intro filter_cong) (auto simp: truthy_def split: option.splits)
  then show ?thesis by (simp add: kind_values_def nonnull_values_def)
qed

lemma truncated_mean_nonneg:
  "0 \<le> sum_list xs \<Longrightarrow> truncated_mean xs = sum_list xs div int (length xs)"
  by (cases "sum_list xs = 0") (simp_all add: truncated_mean_def)

lemma nonnull_values_nonneg:
  assumes "\<forall>act\<in>set h. ev_action act = kind \<longrightarrow> (\<forall>n. ev_value act = Some n \<longrightarrow> 0 < n)"
  shows "0 \<le> sum_list (nonnull_values kind h)"
proof (rule sum_list_nonneg)
  fix x assume "x \<in> set (nonnull_values kind h)"
  then obtain act where "act \<in> set h" "ev_action act = kind" "ev_value act \<noteq> None"
      "x = the (ev_value act)"
    by (auto simp: nonnull_values_def)
  with assms show "0 \<le> x" by fastforce
qed

text \<open>
  Claim C2, as the code has it. With fewer than three entries in the history
  \<open>learn_preferences\<close> changes nothing. With three or more, each of the three preferred
  fields becomes the floor (Python's \<open>//\<close>) of the mean of the values of the entries of
  its kind whose value is neither null nor zero, and keeps its prior value when there is
  no such entry. When every non-null value of a kind is positive, these are all the
  non-null values of the kind and the floor is the truncated mean, as the claim has it.
\<close>

theorem learned_means:
  "(length h < 3 \<longrightarrow> learn_preferences h p = p) \<and>
   (3 \<le> length h \<longrightarrow>
      preferred_temperature (learn_preferences h p) =
        (if kind_values ''climate_set_temperature'' h = [] then preferred_temperature p
         else sum_list (kind_values ''climate_set_temperature'' h) div
              int (length (kind_values ''climate_set_temperature'' h))) \<and>
      preferred_volume (learn_preferences h p) =
        (if kind_values ''infotainment_set_volume'' h = [] then preferred_volume p
         else sum_list (kind_values ''infotainment_set_volume'' h) div
              int (length (kind_values ''infotainment_set_volume'' h))) \<and>
      preferred_seat_position (learn_preferences h p) =
        (if kind_values ''seats_adjust'' h = [] then preferred_seat_position p
         else sum_list (kind_values ''seats_adjust'' h) div
              int (length (kind_values ''seats_adjust'' h)))) \<and>
   ((\<forall>act\<in>set h. ev_action act = kind \<longrightarrow> (\<forall>n. ev_value act = Some n \<longrightarrow> 0 < n)) \<longrightarrow>
      kind_values kind h = nonnull_values kind h \<and>
      sum_list (kind_values kind h) div int (length (kind_values kind h)) =
        truncated_mean (nonnull_values kind h))"
proof (intro conjI impI)
  assume "length h < 3"
  then show "learn_preferences h p = p" by (rule learn_short)
next
  assume "3 \<le> length h"
  then show "preferred_temperature (learn_preferences h p) =
        (if kind_values ''climate_set_temperature'' h = [] then preferred_temperature p
         else sum_list (kind_values ''climate_set_temperature'' h) div
              int (length (kind_values ''climate_set_temperature'' h)))"
    by (simp add: preferred_temperature_learn)
next
  assume "3 \<le> length h"
  then show "preferred_volume (learn_preferences h p) =
        (if kind_values ''infotainment_set_volume'' h = [] then preferred_volume p
         else sum_list (kind_values ''infotainment_set_volume'' h) div
              int (length (kind_values ''infotainment_set_volume'' h)))"
    by (simp add: preferred_volume_learn)
next
  assume "3 \<le> length h"
  then show "preferred_seat_position (learn_preferences h p) =
        (if kind_values ''seats_adjust'' h = [] then preferred_seat_position p
         else sum_list (kind_values ''seats_adjust'' h) div
              int (length (kind_values ''seats_adjust'' h)))"
    by (simp add: preferred_seat_position_learn)
next
  assume pos: "\<forall>act\<in>set h. ev_action act = kind \<longrightarrow> (\<forall>n. ev_value act = Some n \<longrightarrow> 0 < n)"
  then have "\<forall>act\<in>set h. ev_action act = kind \<longrightarrow> ev_value act \<noteq> Some 0"
    by fastforce
  then show eq: "kind_values kind h = nonnull_values kind h"
    by (rule kind_values_nonnull)
  from truncated_mean_nonneg [OF nonnull_values_nonneg [OF pos]]
  show "sum_list (kind_values kind h) div int (length (kind_values kind h)) =
        truncated_mean (nonnull_values kind h)"
    unfolding eq by simp
qed

theorem learned_means_witness:
  "preferred_temperature
     (learn_preferences
        [\<lparr>ev_action = ''climate_set_temperature'', ev_timestamp = ''t0'', ev_value = Some 20\<rparr>,
         \<lparr>ev_action = ''climate_set_temperature'', ev_timestamp = ''t1'', ev_value = Some 22\<rparr>,
         \<lparr>ev_action = ''climate_set_temperature'', ev_timestamp = ''t2'', ev_value = Some 24\<rparr>]
        (driver_preferences_init\<lparr>preferred_temperature := 18\<rparr>)) = 22 \<and>
   truncated_mean (nonnull_values ''climate_set_temperature''
        [\<lparr>ev_action = ''climate_set_temperature'', ev_timestamp = ''t0'', ev_value = Some 20\<rparr>,
         \<lparr>ev_action = ''climate_set_temperature'', ev_timestamp = ''t1'', ev_value = Some 22\<rparr>,
         \<lparr>ev_action = ''climate_set_temperature'', ev_timestamp = ''t2'', ev_value = Some 24\<rparr>]) = 22 \<and>
   preferred_volume
     (learn_preferences
        [\<lparr>ev_action = ''climate_set_temperature'', ev_timestamp = ''t0'', ev_value = Some 20\<rparr>,
         \<lparr>ev_action = ''climate_set_temperature'', ev_timestamp = ''t1'', ev_value = Some 22\<rparr>,
         \<lparr>ev_action = ''climate_set_temperature'', ev_timestamp = ''t2'', ev_value = Some 24\<rparr>]
        (driver_preferences_init\<lparr>preferred_temperature := 18\<rparr>)) = 50 \<and>
   learn_preferences
        [\<lparr>ev_action = ''climate_set_temperature'', ev_timestamp = ''t0'', ev_value = Some 20\<rparr>,
         \<lparr>ev_action = ''climate_set_temperature'', ev_timestamp = ''t1'', ev_value = Some 22\<rparr>]
        driver_preferences_init = driver_preferences_init"
proof -
  let ?h = "[\<lparr>ev_action = ''climate_set_temperature'', ev_timestamp = ''t0'', ev_value = Some 20\<rparr>,
         \<lparr>ev_action = ''climate_set_temperature'', ev_timestamp = ''t1'', ev_value = Some 22\<rparr>,
         \<lparr>ev_action = ''climate_set_temperature'', ev_timestamp = ''t2'', ev_value = Some (24::int)\<rparr>]"
  let ?h2 = "[\<lparr>ev_action = ''climate_set_temperature'', ev_timestamp = ''t0'', ev_value = Some 20\<rparr>,
         \<lparr>ev_action = ''climate_set_temperature'', ev_timestamp = ''t1'', ev_value = Some (22::int)\<rparr>]"
  let ?p = "driver_preferences_init\<lparr>preferred_temperature := 18\<rparr>"
  have long: "3 \<le> length ?h" by simp
  have short: "length ?h2 < 3" by simp
  have pos: "\<forall>act\<in>set ?h. ev_action act = ''climate_set_temperature'' \<longrightarrow>
      (\<forall>n. ev_value act = Some n \<longrightarrow> 0 < n)" by simp
  have kv: "kind_values ''climate_set_temperature'' ?h = [20, 22, 24]"
    "kind_values ''infotainment_set_volume'' ?h = []"
    by (simp_all add: kind_values_def truthy_def)
  note t = learned_means [of ?h ?p "''climate_set_temperature''"]
  from t long have a: "preferred_temperature (learn_preferences ?h ?p) = 22"
    unfolding kv by simp
  from t long have b: "preferred_volume (learn_preferences ?h ?p) = 50"
    unfolding kv by (simp add: driver_preferences_init_def)
  from t pos have c: "truncated_mean (nonnull_values ''climate_set_temperature'' ?h) = 22"
    unfolding kv by simp
  from learned_means [of ?h2 driver_preferences_init "''seats_adjust''"] short
  have d: "learn_preferences ?h2 driver_preferences_init = driver_preferences_init"
    by blast
  from a b c d show ?thesis by simp
qed

text \<open>
  Claim C2 as stated fails: the volumes 0 and 90 have the truncated mean 45, and the code
  stores 90, since its truth test leaves the 0 out; the temperatures -3 and -4 have the
  truncated mean -3, and the code stores the floor -4.
\<close>

theorem learned_mean_not_truncated_mean:
  "preferred_volume
     (learn_preferences
        [\<lparr>ev_action = ''infotainment_set_volume'', ev_timestamp = ''t0'', ev_value = Some 0\<rparr>,
         \<lparr>ev_action = ''infotainment_set_volume'', ev_timestamp = ''t1'', ev_value = Some 90\<rparr>,
         \<lparr>ev_action = ''infotainment_play'', ev_timestamp = ''t2'', ev_value = None\<rparr>]
        driver_preferences_init) = 90 \<and>
   truncated_mean (nonnull_values ''infotainment_set_volume''
        [\<lparr>ev_action = ''infotainment_set_volume'', ev_timestamp = ''t0'', ev_value = Some 0\<rparr>,
         \<lparr>ev_action = ''infotainment_set_volume'', ev_timestamp = ''t1'', ev_value = Some 90\<rparr>,
         \<lparr>ev_action = ''infotainment_play'', ev_timestamp = ''t2'', ev_value = None\<rparr>]) = 45 \<and>
   preferred_temperature
     (learn_preferences
        [\<lparr>ev_action = ''climate_set_temperature'', ev_timestamp = ''t0'', ev_value = Some (- 3)\<rparr>,
         \<lparr>ev_action = ''climate_set_temperature'', ev_timestamp = ''t1'', ev_value = Some (- 4)\<rparr>,
         \<lparr>ev_action = ''climate_turn_on'', ev_timestamp = ''t2'', ev_value = None\<rparr>]
        driver_preferences_init) = - 4 \<and>
   truncated_mean (nonnull_values ''climate_set_temperature''
        [\<lparr>ev_action = ''climate_set_temperature'', ev_timestamp = ''t0'', ev_value = Some (- 3)\<rparr>,
         \<lparr>ev_action = ''climate_set_temperature'', ev_timestamp = ''t1'', ev_value = Some (- 4)\<rparr>,
         \<lparr>ev_action = ''climate_turn_on'', ev_timestamp = ''t2'', ev_value = None\<rparr>]) = - 3"
  by (simp add: preferred_volume_learn preferred_temperature_learn kind_values_def
        nonnull_values_def truncated_mean_def truthy_def)

lemma likes_music_foldl:
  "likes_music q \<Longrightarrow> likes_music (foldl (\<lambda>q w. learn_preferences w q) q ws)"
  by (induction ws arbitrary: q) (simp_all add: likes_music_learn)

lemma likes_warm_seats_foldl:
  "likes_warm_seats q \<Longrightarrow> likes_warm_seats (foldl (\<lambda>q w. learn_preferences w q) q ws)"
  by (induction ws arbitrary: q) (simp_all add: likes_warm_seats_learn)

lemma likes_music_handle_all:
  "likes_music (driver_preferences s) \<Longrightarrow> likes_music (driver_preferences (handle_all s evs))"
proof (induction evs rule: rev_induct)
  case Nil
  then show ?case by (simp add: handle_all_def)
next
  case (snoc e evs)
  obtain now d where e: "e = (now, d)" by (cases e)
  from snoc show ?case
    unfolding e handle_all_snoc driver_preferences_handle
    by (simp add: likes_music_learn)
qed

lemma likes_warm_seats_handle_all:
  "likes_warm_seats (driver_preferences s) \<Longrightarrow>
   likes_warm_seats (driver_preferences (handle_all s evs))"
proof (induction evs rule: rev_induct)
  case Nil
  then show ?case by (simp add: handle_all_def)
next
  case (snoc e evs)
  obtain now d where e: "e = (now, d)" by (cases e)
  from snoc show ?case
    unfolding e handle_all_snoc driver_preferences_handle
    by (simp add: likes_warm_seats_learn)
qed

text \<open>
  Claim C6: a call of \<open>learn_preferences\<close> on a window of at least three entries that
  holds \<open>infotainment_play\<close> sets \<open>likes_music\<close>, and the flag is still set after any
  later calls, whatever their windows hold; once set, it stays set through every later
  event of the session. The same holds for \<open>likes_warm_seats\<close> and \<open>seats_heat_on\<close>.
\<close>

theorem flags_never_reset:
  "(3 \<le> length h \<and> ''infotainment_play'' \<in> set (map ev_action h) \<longrightarrow>
      likes_music (learn_preferences h p) \<and>
      likes_music (foldl (\<lambda>q w. learn_preferences w q) (learn_preferences h p) ws)) \<and>
   (3 \<le> length h \<and> ''seats_heat_on'' \<in> set (map ev_action h) \<longrightarrow>
      likes_warm_seats (learn_preferences h p) \<and>
      likes_warm_seats (foldl (\<lambda>q w. learn_preferences w q) (learn_preferences h p) ws)) \<and>
   (likes_music (driver_preferences s) \<longrightarrow>
      likes_music (driver_preferences (handle_all s evs))) \<and>
   (likes_warm_seats (driver_preferences s) \<longrightarrow>
      likes_warm_seats (driver_preferences (handle_all s evs)))"
proof (intro conjI impI)
  assume a: "3 \<le> length h \<and> ''infotainment_play'' \<in> set (map ev_action h)"
  then show m: "likes_music (learn_preferences h p)"
    by (simp add: likes_music_learn)
  from likes_music_foldl [OF m]
  show "likes_music (foldl (\<lambda>q w. learn_preferences w q) (learn_preferences h p) ws)" .
next
  assume a: "3 \<le> length h \<and> ''seats_heat_on'' \<in> set (map ev_action h)"
  then show m: "likes_warm_seats (learn_preferences h p)"
    by (simp add: likes_warm_seats_learn)
  from likes_warm_seats_foldl [OF m]
  show "likes_warm_seats (foldl (\<lambda>q w. learn_preferences w q) (learn_preferences h p) ws)" .
next
  assume "likes_music (driver_preferences s)"
  then show "likes_music (driver_preferences (handle_all s evs))"
    by (rule likes_music_handle_all)
next
  assume "likes_warm_seats (driver_preferences s)"
  then show "likes_warm_seats (driver_preferences (handle_all s evs))"
    by (rule likes_warm_seats_handle_all)
qed

theorem flags_never_reset_witness:
  "likes_music
     (learn_preferences
        (replicate 3 \<lparr>ev_action = ''lights_dim'', ev_timestamp = ''t3'', ev_value = None\<rparr>)
        (learn_preferences
           [\<lparr>ev_action = ''infotainment_play'', ev_timestamp = ''t0'', ev_value = None\<rparr>,
            \<lparr>ev_action = ''seats_heat_on'', ev_timestamp = ''t1'', ev_value = None\<rparr>,
            \<lparr>ev_action = ''lights_dim'', ev_timestamp = ''t2'', ev_value = None\<rparr>]
           driver_preferences_init)) \<and>
   likes_warm_seats
     (learn_preferences
        (replicate 3 \<lparr>ev_action = ''lights_dim'', ev_timestamp = ''t3'', ev_value = None\<rparr>)
        (learn_preferences
           [\<lparr>ev_action = ''infotainment_play'', ev_timestamp = ''t0'', ev_value = None\<rparr>,
            \<lparr>ev_action = ''seats_heat_on'', ev_timestamp = ''t1'', ev_value = None\<rparr>,
            \<lparr>ev_action = ''lights_dim'', ev_timestamp = ''t2'', ev_value = None\<rparr>]
           driver_preferences_init)) \<and>
   ''infotainment_play'' \<notin> set (map ev_action
        (replicate 3 \<lparr>ev_action = ''lights_dim'', ev_timestamp = ''t3'', ev_value = None\<rparr>)) \<and>
   \<not> likes_music driver_preferences_init"
proof -
  let ?h = "[\<lparr>ev_action = ''infotainment_play'', ev_timestamp = ''t0'', ev_value = None\<rparr>,
            \<lparr>ev_action = ''seats_heat_on'', ev_timestamp = ''t1'', ev_value = None\<rparr>,
            \<lparr>ev_action = ''lights_dim'', ev_timestamp = ''t2'', ev_value = None\<rparr>]"
  let ?w = "replicate 3 \<lparr>ev_action = ''lights_dim'', ev_timestamp = ''t3'', ev_value = None\<rparr>"
  have m: "3 \<le> length ?h \<and> ''infotainment_play'' \<in> set (map ev_action ?h)" by simp
  have w: "3 \<le> length ?h \<and> ''seats_heat_on'' \<in> set (map ev_action ?h)" by simp
  from flags_never_reset [of ?h driver_preferences_init "[?w]" ai_init "[]"] m w
  show ?thesis by (simp add: driver_preferences_init_def)
qed

section \<open>Properties of the recommendation generator\<close>

lemma passed_Cons:
  "map snd (filter fst ((c, x) # rs)) = (if c then [x] else []) @ map snd (filter fst rs)"
  by simp

lemma passed_Cons_if:
  "map snd (filter fst ((if n then (a, x) else (c, y)) # rs)) =
     (if n then (if a then [x] else []) else (if c then [y] else [])) @
     map snd (filter fst rs)"
  by simp

lemma passed_Nil: "map snd (filter fst []) = []"
  by simp

lemma if_nonempty: "(if R \<noteq> [] then Some (take 2 R) else None) =
     (if R = [] then None else Some (take 2 R))"
  by simp

lemma generate_as_rules:
  "generate_recommendations phrase hr cs p h =
     first_two_eligible (eligibility_rules phrase hr cs p h)"
  unfolding generate_recommendations_def first_two_eligible_def eligibility_rules_def
    last_3_def Let_def
  by (simp only: passed_Cons passed_Cons_if passed_Nil append_Nil2 if_nonempty)

lemma first_two_eligible_member:
  assumes "first_two_eligible rules = Some rs" "r \<in> set rs"
  shows "(True, r) \<in> set rules"
proof -
  from assms(1) have "rs = take 2 (map snd (filter fst rules))"
    by (simp add: first_two_eligible_def Let_def split: if_splits)
  with assms(2) have "r \<in> set (map snd (filter fst rules))"
    by (auto dest: in_set_takeD)
  then show ?thesis by force
qed

lemma first_two_eligible_length:
  "first_two_eligible rules = Some rs \<Longrightarrow> rs \<noteq> [] \<and> length rs \<le> 2"
  by (auto simp: first_two_eligible_def Let_def split: if_splits)

lemma first_two_eligible_none:
  "filter fst rules = [] \<Longrightarrow> first_two_eligible rules = None"
  by (simp add: first_two_eligible_def)

lemma py_last_3_of_5:
  "py_last 3 (map f (py_last 5 h)) = py_last 3 (map f h)"
proof -
  have "length h - (length h - 5) - 3 + (length h - 5) = length h - 3" by arith
  then show ?thesis by (simp add: py_last_def drop_map)
qed

lemma generated_action:
  assumes "generate_recommendations phrase hr cs p h = Some rs" "r \<in> set rs"
  shows "rec_action r \<notin> set (last_3 h) \<and>
         rec_action r \<in> set [''climate_turn_on'', ''climate_set_temperature'',
           ''infotainment_play'', ''infotainment_set_volume'', ''lights_turn_on'',
           ''lights_turn_off'', ''seats_heat_on'', ''seats_adjust'']"
proof -
  from assms have "(True, r) \<in> set (eligibility_rules phrase hr cs p h)"
    unfolding generate_as_rules by (rule first_two_eligible_member)
  then show ?thesis
    unfolding eligibility_rules_def set_simps insert_iff empty_iff
    by (elim disjE) (simp_all split: if_splits)
qed

text \<open>
  Claim C3: for every car state, preference profile and history,
  \<open>generate_recommendations\<close> returns what the specification's rule list gives: the
  recommendations of the first two rules that pass, in declaration order (climate on,
  temperature match, music, volume match, lighting, seat warmth, seat position), so one
  or two recommendations, and rules that pass after two are dropped. When no rule passes
  it returns \<open>None\<close>, and the pass of the recommendation loop leaves the session as it
  was: nothing is published.
\<close>

theorem first_two_in_order:
  "generate_recommendations phrase hr cs p h =
     first_two_eligible (eligibility_rules phrase hr cs p h) \<and>
   (generate_recommendations phrase hr cs p h = Some rs \<longrightarrow>
      rs = take 2 (map snd (filter fst (eligibility_rules phrase hr cs p h))) \<and>
      rs \<noteq> [] \<and> length rs \<le> 2) \<and>
   (filter fst (eligibility_rules phrase hr (car_state s) (driver_preferences s)
        (action_history s)) = [] \<longrightarrow>
      generate_recommendations phrase hr (car_state s) (driver_preferences s)
        (action_history s) = None \<and>
      step_session s (LoopPass phrase hr now now') = s)"
proof (intro conjI impI)
  show "generate_recommendations phrase hr cs p h =
     first_two_eligible (eligibility_rules phrase hr cs p h)"
    by (rule generate_as_rules)
next
  assume a: "generate_recommendations phrase hr cs p h = Some rs"
  then show "rs = take 2 (map snd (filter fst (eligibility_rules phrase hr cs p h)))"
    unfolding generate_as_rules
    by (simp add: first_two_eligible_def Let_def split: if_splits)
  from a show "rs \<noteq> []" "length rs \<le> 2"
    unfolding generate_as_rules by (simp_all add: first_two_eligible_length)
next
  assume "filter fst (eligibility_rules phrase hr (car_state s) (driver_preferences s)
        (action_history s)) = []"
  then show n: "generate_recommendations phrase hr (car_state s) (driver_preferences s)
        (action_history s) = None"
    unfolding generate_as_rules by (rule first_two_eligible_none)
  show "step_session s (LoopPass phrase hr now now') = s"
    by (simp add: recommendation_loop_pass_def n)
qed

theorem first_two_in_order_witness:
  "map rec_action (the (generate_recommendations (\<lambda>a. a) 20 car_state_init
       (driver_preferences_init\<lparr>likes_music := True\<rparr>) [])) =
     [''climate_turn_on'', ''infotainment_play''] \<and>
   map (rec_action \<circ> snd) (filter fst (eligibility_rules (\<lambda>a. a) 20 car_state_init
       (driver_preferences_init\<lparr>likes_music := True\<rparr>) [])) =
     [''climate_turn_on'', ''infotainment_play'', ''lights_turn_on''] \<and>
   generate_recommendations (\<lambda>a. a) 12 (car_state_init\<lparr>climate_on := True\<rparr>)
       driver_preferences_init [] = None \<and>
   step_session (ai_init\<lparr>car_state := car_state_init\<lparr>climate_on := True\<rparr>\<rparr>)
       (LoopPass (\<lambda>a. a) 12 ''t1'' ''t2'') =
     ai_init\<lparr>car_state := car_state_init\<lparr>climate_on := True\<rparr>\<rparr>"
proof -
  let ?p = "driver_preferences_init\<lparr>likes_music := True\<rparr>"
  let ?s = "ai_init\<lparr>car_state := car_state_init\<lparr>climate_on := True\<rparr>\<rparr>"
  have three: "map (rec_action \<circ> snd) (filter fst (eligibility_rules (\<lambda>a. a) 20 car_state_init ?p [])) =
     [''climate_turn_on'', ''infotainment_play'', ''lights_turn_on'']"
    by (simp add: eligibility_rules_def last_3_def py_last_def car_state_init_def
          driver_preferences_init_def)
  have none: "filter fst (eligibility_rules (\<lambda>a. a) 12 (car_state ?s) (driver_preferences ?s)
        (action_history ?s)) = []"
    by (simp add: eligibility_rules_def last_3_def py_last_def car_state_init_def
          driver_preferences_init_def ai_init_def)
  from first_two_in_order [of "\<lambda>a. a" 20 car_state_init ?p "[]"]
  have "generate_recommendations (\<lambda>a. a) 20 car_state_init ?p [] =
     first_two_eligible (eligibility_rules (\<lambda>a. a) 20 car_state_init ?p [])"
    by blast
  then have two: "map rec_action (the (generate_recommendations (\<lambda>a. a) 20 car_state_init ?p [])) =
     [''climate_turn_on'', ''infotainment_play'']"
    by (simp add: first_two_eligible_def eligibility_rules_def last_3_def py_last_def
          car_state_init_def driver_preferences_init_def)
  from first_two_in_order [of "\<lambda>a. a" 12 _ _ _ _ ?s "''t1''" "''t2''"] none
  have "generate_recommendations (\<lambda>a. a) 12 (car_state ?s) (driver_preferences ?s)
        (action_history ?s) = None \<and>
      step_session ?s (LoopPass (\<lambda>a. a) 12 ''t1'' ''t2'') = ?s"
    by blast
  then have last: "generate_recommendations (\<lambda>a. a) 12 (car_state_init\<lparr>climate_on := True\<rparr>)
       driver_preferences_init [] = None \<and>
      step_session ?s (LoopPass (\<lambda>a. a) 12 ''t1'' ''t2'') = ?s"
    by (simp add: ai_init_def)
  from two three last show ?thesis by simp
qed

text \<open>
  Claim C5: no recommendation returned by \<open>generate_recommendations\<close> has an action
  name that is among the last three recorded action names; the suppression set, the last
  three of the last five, is the last three of the whole history.
\<close>

theorem no_recently_performed_action:
  "generate_recommendations phrase hr cs p h = Some rs \<Longrightarrow> r \<in> set rs \<Longrightarrow>
   rec_action r \<notin> set (py_last 3 (map ev_action (py_last 5 h))) \<and>
   py_last 3 (map ev_action (py_last 5 h)) = py_last 3 (map ev_action h)"
  using generated_action [of phrase hr cs p h rs r]
  by (simp add: last_3_def py_last_3_of_5)

theorem no_recently_performed_action_witness:
  "generate_recommendations (\<lambda>a. a) 20 car_state_init
      (driver_preferences_init\<lparr>likes_music := True\<rparr>)
      (map (\<lambda>a. \<lparr>ev_action = a, ev_timestamp = ''t'', ev_value = None\<rparr>)
         [''seats_heat_off'', ''climate_turn_on'', ''climate_turn_off'', ''infotainment_play'',
          ''infotainment_stop'', ''lights_dim'']) =
     Some [\<lparr>rec_action = ''climate_turn_on'', rec_message = ''climate_turn_on'',
             rec_value = None\<rparr>,
           \<lparr>rec_action = ''lights_turn_on'', rec_message = ''lights_turn_on'',
             rec_value = None\<rparr>] \<and>
   ''climate_turn_on'' \<notin> set (py_last 3 (map ev_action (py_last 5
      (map (\<lambda>a. \<lparr>ev_action = a, ev_timestamp = ''t'', ev_value = None\<rparr>)
         [''seats_heat_off'', ''climate_turn_on'', ''climate_turn_off'', ''infotainment_play'',
          ''infotainment_stop'', ''lights_dim''])))) \<and>
   py_last 3 (map ev_action
      (map (\<lambda>a. \<lparr>ev_action = a, ev_timestamp = ''t'', ev_value = None\<rparr>)
         [''seats_heat_off'', ''climate_turn_on'', ''climate_turn_off'', ''infotainment_play'',
          ''infotainment_stop'', ''lights_dim''])) =
     [''infotainment_play'', ''infotainment_stop'', ''lights_dim'']"
proof -
  let ?h = "map (\<lambda>a. \<lparr>ev_action = a, ev_timestamp = ''t'', ev_value = None :: int option\<rparr>)
         [''seats_heat_off'', ''climate_turn_on'', ''climate_turn_off'', ''infotainment_play'',
          ''infotainment_stop'', ''lights_dim'']"
  let ?r1 = "\<lparr>rec_action = ''climate_turn_on'', rec_message = ''climate_turn_on'',
             rec_value = None :: int option\<rparr>"
  let ?r2 = "\<lparr>rec_action = ''lights_turn_on'', rec_message = ''lights_turn_on'',
             rec_value = None :: int option\<rparr>"
  have g: "generate_recommendations (\<lambda>a. a) 20 car_state_init
      (driver_preferences_init\<lparr>likes_music := True\<rparr>) ?h = Some [?r1, ?r2]"
    by (simp add: generate_recommendations_def Let_def py_last_def car_state_init_def
          driver_preferences_init_def)
  have m: "?r1 \<in> set [?r1, ?r2]" by simp
  have l: "py_last 3 (map ev_action ?h) = [''infotainment_play'', ''infotainment_stop'', ''lights_dim'']"
    by (simp add: py_last_def)
  from no_recently_performed_action [OF g m] g l show ?thesis by simp
qed

section \<open>The break reminder\<close>

lemma loop_pass_break_reminders:
  assumes "recommendation_loop_pass phrase hr now now' s = Some s'"
  shows "break_reminders s' = break_reminders s \<and>
         break_reminder_sent s' = break_reminder_sent s"
proof (cases "generate_recommendations phrase hr (car_state s) (driver_preferences s)
                (action_history s)")
  case None
  with assms show ?thesis
    by (simp add: recommendation_loop_pass_def split: if_splits)
next
  case (Some rs)
  have "''take_break'' \<notin> set (map rec_action rs)"
  proof
    assume "''take_break'' \<in> set (map rec_action rs)"
    then obtain r where "r \<in> set rs" "rec_action r = ''take_break''" by auto
    with generated_action [OF Some, of r] show False by simp
  qed
  with assms Some show ?thesis
    by (auto simp: recommendation_loop_pass_def send_recommendations_def break_reminders_def
          split: if_splits)
qed

lemma step_session_reminders:
  assumes "length (break_reminders s) \<le> (if break_reminder_sent s then 1 else 0)"
  shows "length (break_reminders (step_session s st)) \<le>
           (if break_reminder_sent (step_session s st) then 1 else 0)"
proof (cases st)
  case (Action now d)
  with assms show ?thesis by (simp add: published_handle break_reminders_def)
next
  case LearningExpired
  with assms show ?thesis by (simp add: complete_learning_def break_reminders_def)
next
  case (ReminderExpired message now)
  with assms show ?thesis
    by (simp add: send_break_reminder_def break_reminders_def split: if_splits)
next
  case (LoopPass phrase hr now now')
  show ?thesis
  proof (cases "recommendation_loop_pass phrase hr now now' s")
    case None
    with assms LoopPass show ?thesis by simp
  next
    case (Some s')
    from loop_pass_break_reminders [OF Some] assms LoopPass Some show ?thesis by simp
  qed
qed

lemma run_session_reminders:
  "length (break_reminders s) \<le> (if break_reminder_sent s then 1 else 0) \<Longrightarrow>
   length (break_reminders (run_session s steps)) \<le>
     (if break_reminder_sent (run_session s steps) then 1 else 0)"
proof (induction steps arbitrary: s)
  case Nil
  then show ?case by (simp add: run_session_def)
next
  case (Cons st steps)
  from Cons.IH [OF step_session_reminders [OF Cons.prems, of st]]
  show ?case by (simp add: run_session_def)
qed

text \<open>
  Claim C7: a call of \<open>send_break_reminder\<close> with the flag unset sets
  \<open>break_reminder_sent\<close> and publishes one message, whose only recommendation has the
  action \<open>take_break\<close>; a call with the flag set changes nothing, so a second expiry
  publishes nothing; and however actions, timer expiries and loop passes follow one
  another in a session, at most one break reminder is ever published.
\<close>

theorem break_reminder_once:
  "(\<not> break_reminder_sent s \<longrightarrow>
      break_reminder_sent (send_break_reminder message now s) \<and>
      published (send_break_reminder message now s) =
        published s @
        [(recommendations_topic,
          \<lparr>msg_type = ''ai_suggestion'',
           msg_recommendations =
             [\<lparr>rec_action = ''take_break'', rec_message = message, rec_value = None\<rparr>],
           msg_timestamp = now\<rparr>)]) \<and>
   (break_reminder_sent s \<longrightarrow> send_break_reminder message now s = s) \<and>
   published (send_break_reminder message' now'
      (send_break_reminder message now s)) =
     published (send_break_reminder message now s) \<and>
   length (break_reminders (run_session ai_init steps)) \<le> 1"
proof (intro conjI impI)
  assume "\<not> break_reminder_sent s"
  then show "break_reminder_sent (send_break_reminder message now s)"
    and "published (send_break_reminder message now s) =
        published s @
        [(recommendations_topic,
          \<lparr>msg_type = ''ai_suggestion'',
           msg_recommendations =
             [\<lparr>rec_action = ''take_break'', rec_message = message, rec_value = None\<rparr>],
           msg_timestamp = now\<rparr>)]"
    by (simp_all add: send_break_reminder_def)
next
  assume "break_reminder_sent s"
  then show "send_break_reminder message now s = s"
    by (simp add: send_break_reminder_def)
next
  show "published (send_break_reminder message' now' (send_break_reminder message now s)) =
     published (send_break_reminder message now s)"
    by (simp add: send_break_reminder_def)
next
  have "length (break_reminders ai_init) \<le> (if break_reminder_sent ai_init then 1 else 0)"
    by (simp add: break_reminders_def ai_init_def)
  from run_session_reminders [OF this, of steps]
  show "length (break_reminders (run_session ai_init steps)) \<le> 1"
    by (simp split: if_splits)
qed

theorem break_reminder_once_witness:
  "\<not> break_reminder_sent ai_init \<and>
   published (send_break_reminder ''rest'' ''t200'' ai_init) =
     [(''vehicle/recommendations'',
       \<lparr>msg_type = ''ai_suggestion'',
        msg_recommendations =
          [\<lparr>rec_action = ''take_break'', rec_message = ''rest'', rec_value = None\<rparr>],
        msg_timestamp = ''t200''\<rparr>)] \<and>
   break_reminder_sent (send_break_reminder ''rest'' ''t200'' ai_init) \<and>
   send_break_reminder ''again'' ''t201'' (send_break_reminder ''rest'' ''t200'' ai_init) =
     send_break_reminder ''rest'' ''t200'' ai_init \<and>
   length (break_reminders (run_session ai_init
      [ReminderExpired ''rest'' ''t200'', ReminderExpired ''again'' ''t201''])) = 1"
proof -
  let ?before = "send_break_reminder ''rest'' ''t200'' ai_init"
  have u: "\<not> break_reminder_sent ai_init" by (simp add: ai_init_def)
  from break_reminder_once [of ai_init "''rest''" "''t200''"] u
  have a: "break_reminder_sent ?before \<and>
      published ?before = published ai_init @
        [(recommendations_topic,
          \<lparr>msg_type = ''ai_suggestion'',
           msg_recommendations =
             [\<lparr>rec_action = ''take_break'', rec_message = ''rest'', rec_value = None\<rparr>],
           msg_timestamp = ''t200''\<rparr>)]"
    by blast
  then have sent: "break_reminder_sent ?before" by simp
  from break_reminder_once [of ?before "''again''" "''t201''"] sent
  have b: "send_break_reminder ''again'' ''t201'' ?before = ?before" by blast
  have e: "published ai_init = []" by (simp add: ai_init_def)
  from a e have p1: "published ?before =
        [(''vehicle/recommendations'',
          \<lparr>msg_type = ''ai_suggestion'',
           msg_recommendations =
             [\<lparr>rec_action = ''take_break'', rec_message = ''rest'', rec_value = None\<rparr>],
           msg_timestamp = ''t200''\<rparr>)]"
    by (simp add: recommendations_topic_def)
  have c: "length (break_reminders (run_session ai_init
      [ReminderExpired ''rest'' ''t200'', ReminderExpired ''again'' ''t201''])) = 1"
    by (simp add: run_session_def b break_reminders_def p1)
  from u a b c p1 show ?thesis by simp
qed

end
